theory Spec2Isabelle
  imports Main "HOL-Library.Word"
begin

section \<open>Data model\<close>

text \<open>
  The program is one Python module, \<^verbatim>\<open>config.py\<close>: a \<^verbatim>\<open>Config\<close> class, the
  \<^verbatim>\<open>PresentationManager\<close> (four static methods that build a python-pptx
  presentation) and the \<^verbatim>\<open>PresentationBot\<close> (Telegram handlers).

  A python-pptx presentation is modelled by the part of it the module touches: the ordered
  slides, and for each slide the index of the layout it was created from, the text its
  title shape reads back, the text placeholder 1 reads back, the paragraphs added to the
  text frame of placeholder 1 and the pictures added to its shape tree. The layout table of
  the presentation is taken to offer the layouts the module asks for (indices 0, 1 and 5)
  with the placeholders it writes to, as the library's default template does.

  A Python string is a \<open>string\<close> with one character per code point, which covers the code
  points below 256.

  The file system is what the operating system finds at a path: nothing, a directory, or
  a file with its bytes. Paths are POSIX paths with the limits of Linux (a component of at
  most 255 bytes, a path of fewer than 4096 bytes), and the file system has no
  permissions.
\<close>

type_synonym byte = "8 word"
type_synonym path = string

datatype node = Dir | File "byte list"

type_synonym fs = "path \<rightharpoonup> node"

text \<open>
  The exceptions the module meets. \<^verbatim>\<open>FileNotFoundError\<close> is raised by the module itself
  (then it carries the name the message reports) and by the operating system for a missing
  path. \<open>IsADirectoryError\<close> and \<open>NotADirectoryError\<close> come from opening a path.
  \<open>ValueError\<close> is what opening a path with a NUL character raises, and \<open>OSError\<close>
  stands for the error of the operating system on a name that is too long.
  \<open>BadZipFile\<close> stands for whatever \<^verbatim>\<open>pptx.Presentation\<close> raises on a file that is
  not a well-formed document, \<open>UnidentifiedImageError\<close> for whatever \<^verbatim>\<open>add_picture\<close>
  raises on a file that is not an image, and \<open>NetworkError\<close> for whatever the Telegram
  client raises when a request or a download fails.
\<close>

datatype error =
    FileNotFoundError string
  | IsADirectoryError
  | NotADirectoryError
  | BadZipFile
  | UnidentifiedImageError
  | ValueError
  | OSError
  | NetworkError

datatype outcome = Returned | Raised error

record text_paragraph =
  p_text :: string
  font_size :: "int option"

record picture =
  image_file :: string
  pic_left :: int
  pic_top :: int

record slide =
  layout :: nat
  title :: string
  placeholder_1 :: "string option"
  paragraphs :: "text_paragraph list"
  pictures :: "picture list"

record presentation =
  slides :: "slide list"

subsection \<open>Paths\<close>

text \<open>
  \<^verbatim>\<open>str(Path(s))\<close> on POSIX: the root is \<^verbatim>\<open>//\<close> for exactly two leading slashes and
  \<^verbatim>\<open>/\<close> for any other number of them; empty components and \<^verbatim>\<open>.\<close> components are
  dropped, \<^verbatim>\<open>..\<close> components are kept; the path without root and components is
  \<^verbatim>\<open>.\<close>. \<open>split_sep\<close> is \<^verbatim>\<open>s.split('/')\<close>, with the component being read as
  its first argument.
\<close>

fun split_from :: "string \<Rightarrow> string \<Rightarrow> string list" where
  "split_from cur [] = [cur]"
| "split_from cur (c # cs) =
     (if c = CHR ''/'' then cur # split_from [] cs else split_from (cur @ [c]) cs)"

definition split_sep :: "string \<Rightarrow> string list" where
  "split_sep s = split_from [] s"

definition path_parts :: "string \<Rightarrow> string list" where
  "path_parts s = filter (\<lambda>x. x \<noteq> [] \<and> x \<noteq> ''.'') (split_sep s)"

definition path_root :: "string \<Rightarrow> string" where
  "path_root s =
     (if take 2 s = ''//'' \<and> take 3 s \<noteq> ''///'' then ''//''
      else if take 1 s = ''/'' then ''/''
      else [])"

fun join_parts :: "string list \<Rightarrow> string" where
  "join_parts [] = []"
| "join_parts [x] = x"
| "join_parts (x # y # ys) = x @ ''/'' @ join_parts (y # ys)"

definition format_path :: "string \<Rightarrow> string list \<Rightarrow> path" where
  "format_path r ps = (if r = [] \<and> ps = [] then ''.'' else r @ join_parts ps)"

definition Path :: "string \<Rightarrow> path" where
  "Path s = format_path (path_root s) (path_parts s)"

text \<open>
  \<^verbatim>\<open>directory / name\<close>: an absolute name replaces the directory, any other name is
  appended to it.
\<close>

definition path_join :: "path \<Rightarrow> string \<Rightarrow> path" where
  "path_join d n = (if take 1 n = ''/'' then Path n else Path (d @ ''/'' @ n))"

text \<open>The directory that has to be there for a file to be created at the path.\<close>

definition parent_path :: "path \<Rightarrow> path" where
  "parent_path p = format_path (path_root p) (butlast (path_parts p))"

text \<open>
  What the operating system says of a path before it looks anything up. Python refuses a
  path with a NUL character with \<^verbatim>\<open>ValueError\<close>; the kernel refuses a path of 4096
  bytes or more, and a component of more than 255 bytes, with \<^verbatim>\<open>ENAMETOOLONG\<close>. The
  bytes are those of the UTF-8 encoding: one for a code point below 128, two for the
  others.
\<close>

definition utf8_len :: "string \<Rightarrow> nat" where
  "utf8_len s = length s + length (filter (\<lambda>c. 128 \<le> (of_char c :: nat)) s)"

definition too_long :: "path \<Rightarrow> bool" where
  "too_long p = (4096 \<le> utf8_len p \<or> list_ex (\<lambda>x. 255 < utf8_len x) (split_sep p))"

definition os_error :: "path \<Rightarrow> error option" where
  "os_error p =
     (if CHR 0x00 \<in> set p then Some ValueError
      else if too_long p then Some OSError
      else None)"

text \<open>
  \<^verbatim>\<open>Path.exists()\<close> is true of files and of directories. It answers \<^verbatim>\<open>False\<close> for
  a path with a NUL character and lets the error for a name that is too long through.
\<close>

definition exists_path :: "fs \<Rightarrow> path \<Rightarrow> error + bool" where
  "exists_path disk p =
     (case os_error p of
        None \<Rightarrow> Inr (disk p \<noteq> None)
      | Some e \<Rightarrow> (if e = ValueError then Inr False else Inl e))"

subsection \<open>The library calls the module makes\<close>

text \<open>\<^verbatim>\<open>pptx.util.Pt\<close> and \<^verbatim>\<open>pptx.util.Inches\<close> convert to English Metric Units.\<close>

definition Pt :: "int \<Rightarrow> int" where
  "Pt n = n * 12700"

definition Inches :: "int \<Rightarrow> int" where
  "Inches n = n * 914400"

text \<open>
  Assigning to the \<^verbatim>\<open>text\<close> of a shape or of a paragraph stores the string as XML
  text. The library replaces each control character in \<^verbatim>\<open>[\x00-\x08\x0C-\x1F]\<close> by
  \<^verbatim>\<open>"_x%04X_" % ord(c)\<close>. In a shape a line feed starts a new paragraph and a vertical
  tab a line break, and they read back as themselves; in a paragraph both are line breaks
  and read back as vertical tabs. \<open>shape_text\<close> and \<open>paragraph_text\<close> are what the
  \<^verbatim>\<open>text\<close> property reads back after the assignment.
\<close>

definition is_control :: "char \<Rightarrow> bool" where
  "is_control c = ((of_char c :: nat) < 9 \<or> (12 \<le> (of_char c :: nat) \<and> (of_char c :: nat) < 32))"

definition hex_digit :: "nat \<Rightarrow> char" where
  "hex_digit d = ''0123456789ABCDEF'' ! d"

definition escape_char :: "char \<Rightarrow> string" where
  "escape_char c =
     (if is_control c
      then ''_x00'' @ [hex_digit (of_char c div 16), hex_digit (of_char c mod 16)] @ ''_''
      else [c])"

definition shape_text :: "string \<Rightarrow> string" where
  "shape_text s = concat (map escape_char s)"

definition paragraph_text :: "string \<Rightarrow> string" where
  "paragraph_text s =
     concat (map (\<lambda>c. if c = CHR 0x0A then [CHR 0x0B] else escape_char c) s)"

text \<open>
  \<^verbatim>\<open>prs.slides.add_slide(prs.slide_layouts[k])\<close> appends a fresh slide of layout \<open>k\<close>
  and returns a reference to it; the reference is the slide's position in the deck.
  Nothing has been written to the fresh slide: its title is empty and placeholder 1 is
  untouched (\<open>None\<close>).
\<close>

definition new_slide :: "nat \<Rightarrow> slide" where
  "new_slide k = \<lparr>layout = k, title = [], placeholder_1 = None, paragraphs = [], pictures = []\<rparr>"

definition add_slide :: "presentation \<Rightarrow> nat \<Rightarrow> nat \<times> presentation" where
  "add_slide prs k = (length (slides prs), prs\<lparr>slides := slides prs @ [new_slide k]\<rparr>)"

text \<open>An assignment through a slide reference changes that slide inside the deck.\<close>

definition modify_slide :: "nat \<Rightarrow> (slide \<Rightarrow> slide) \<Rightarrow> presentation \<Rightarrow> presentation" where
  "modify_slide i f prs = prs\<lparr>slides := (slides prs)[i := f (slides prs ! i)]\<rparr>"

text \<open>
  \<^verbatim>\<open>shapes.add_picture(image_file, left, top)\<close> opens the file and reads the image in
  it. The image decoder belongs to the library and is a parameter of the model: it says of
  the bytes of a file whether they are an image.
\<close>

type_synonym decoder = "byte list \<Rightarrow> bool"

definition add_picture :: "decoder \<Rightarrow> fs \<Rightarrow> string \<Rightarrow> int \<Rightarrow> int \<Rightarrow> error + picture" where
  "add_picture decode disk image_file_name left_offset top_offset =
     (case os_error image_file_name of
        Some e \<Rightarrow> Inl e
      | None \<Rightarrow>
          (case disk image_file_name of
             None \<Rightarrow> Inl (FileNotFoundError image_file_name)
           | Some Dir \<Rightarrow> Inl IsADirectoryError
           | Some (File bs) \<Rightarrow>
               if decode bs
               then Inr \<lparr>image_file = image_file_name, pic_left = left_offset,
                         pic_top = top_offset\<rparr>
               else Inl UnidentifiedImageError))"

section \<open>PresentationManager\<close>

text \<open>
  The methods mutate the presentation they are given and return \<^verbatim>\<open>None\<close> or raise.
  The model returns the outcome together with the presentation as the call leaves it, so
  that what a raising call has already done to the deck stays visible.
\<close>

text \<open>
  \<^verbatim>\<open>
  title_slide = prs.slides.add_slide(prs.slide_layouts[0])
  title_slide.shapes.title.text = title
  if subtitle:
      title_slide.placeholders[1].text = subtitle
  \<close>
\<close>

definition add_title_slide :: "presentation \<Rightarrow> string \<Rightarrow> string \<Rightarrow> outcome \<times> presentation" where
  "add_title_slide prs ttl subtitle =
     (let (title_slide, prs1) = add_slide prs 0;
          prs2 = modify_slide title_slide (\<lambda>s. s\<lparr>title := shape_text ttl\<rparr>) prs1;
          prs3 = (if subtitle \<noteq> []
                  then modify_slide title_slide
                         (\<lambda>s. s\<lparr>placeholder_1 := Some (shape_text subtitle)\<rparr>) prs2
                  else prs2)
      in (Returned, prs3))"

text \<open>
  \<^verbatim>\<open>
  for point in content:
      p = tf.add_paragraph()
      p.text = point
      p.font.size = Pt(18)
  \<close>
\<close>

fun add_paragraphs :: "nat \<Rightarrow> string list \<Rightarrow> presentation \<Rightarrow> presentation" where
  "add_paragraphs i [] prs = prs"
| "add_paragraphs i (point # content) prs =
     add_paragraphs i content
       (modify_slide i
          (\<lambda>s. s\<lparr>paragraphs := paragraphs s @
             [\<lparr>p_text = paragraph_text point, font_size = Some (Pt 18)\<rparr>]\<rparr>) prs)"

definition add_content_slide :: "presentation \<Rightarrow> string \<Rightarrow> string list \<Rightarrow> outcome \<times> presentation" where
  "add_content_slide prs ttl content =
     (let (bullet_slide, prs1) = add_slide prs 1;
          prs2 = modify_slide bullet_slide (\<lambda>s. s\<lparr>title := shape_text ttl\<rparr>) prs1
      in (Returned, add_paragraphs bullet_slide content prs2))"

text \<open>
  \<^verbatim>\<open>
  img_slide = prs.slides.add_slide(prs.slide_layouts[5])
  img_slide.shapes.title.text = title
  img_path = Path(image_path)
  if img_path.exists():
      left = top = Inches(1)
      img_slide.shapes.add_picture(str(img_path), left, top)
  else:
      raise FileNotFoundError(...)
  \<close>
  The message of the exception shows \<^verbatim>\<open>image_path\<close> as it was given.
\<close>

definition add_image_slide ::
  "decoder \<Rightarrow> fs \<Rightarrow> presentation \<Rightarrow> string \<Rightarrow> string \<Rightarrow> outcome \<times> presentation" where
  "add_image_slide decode disk prs ttl image_path =
     (let (img_slide, prs1) = add_slide prs 5;
          prs2 = modify_slide img_slide (\<lambda>s. s\<lparr>title := shape_text ttl\<rparr>) prs1;
          img_path = Path image_path
      in case exists_path disk img_path of
           Inl e \<Rightarrow> (Raised e, prs2)
         | Inr found \<Rightarrow>
             if found
             then (case add_picture decode disk img_path (Inches 1) (Inches 1) of
                     Inl e \<Rightarrow> (Raised e, prs2)
                   | Inr pic \<Rightarrow>
                       (Returned,
                        modify_slide img_slide (\<lambda>s. s\<lparr>pictures := pictures s @ [pic]\<rparr>) prs2))
             else (Raised (FileNotFoundError image_path), prs2))"

section \<open>Config\<close>

text \<open>
  \<^verbatim>\<open>os.getenv(key, default)\<close> on the process environment, a map from names to values.
\<close>

definition getenv :: "(string \<rightharpoonup> string) \<Rightarrow> string \<Rightarrow> string \<Rightarrow> string" where
  "getenv env key dflt = (case env key of None \<Rightarrow> dflt | Some v \<Rightarrow> v)"

definition API_TOKEN :: "(string \<rightharpoonup> string) \<Rightarrow> string" where
  "API_TOKEN env = getenv env ''API_TOKEN'' ''7567293644:AAHVSPgyYAPt_NaUahhdID2njMK-FrtxaRg''"

definition MAX_FILE_SIZE :: int where
  "MAX_FILE_SIZE = 500 * 1024 * 1024"

definition DOWNLOAD_PATH :: path where
  "DOWNLOAD_PATH = Path ''downloads''"

definition TEMPLATES_PATH :: path where
  "TEMPLATES_PATH = Path ''templates''"

section \<open>Creating a presentation\<close>

text \<open>
  \<^verbatim>\<open>pptx.Presentation(pptx=None)\<close>: without a path, the library's default template, which
  has no slide; with a path, the document parsed from the file there. The parser of the
  document format belongs to the library and is a parameter of the model.
\<close>

type_synonym parser = "byte list \<Rightarrow> presentation option"

definition Presentation :: "parser \<Rightarrow> fs \<Rightarrow> path option \<Rightarrow> error + presentation" where
  "Presentation parse disk pptx =
     (case pptx of
        None \<Rightarrow> Inr \<lparr>slides = []\<rparr>
      | Some p \<Rightarrow>
          (case os_error p of
             Some e \<Rightarrow> Inl e
           | None \<Rightarrow>
               (case disk p of
                  None \<Rightarrow> Inl (FileNotFoundError p)
                | Some Dir \<Rightarrow> Inl IsADirectoryError
                | Some (File bs) \<Rightarrow>
                    (case parse bs of
                       None \<Rightarrow> Inl BadZipFile
                     | Some prs \<Rightarrow> Inr prs))))"

text \<open>
  \<^verbatim>\<open>
  if template_name:
      template_path = Config.TEMPLATES_PATH / template_name
      if template_path.exists():
          return Presentation(template_path)
      else:
          raise FileNotFoundError(...)
  return Presentation()
  \<close>
  The test \<^verbatim>\<open>if template_name:\<close> is false for \<^verbatim>\<open>None\<close> and for the empty string.
\<close>

definition create_presentation :: "parser \<Rightarrow> fs \<Rightarrow> string option \<Rightarrow> error + presentation" where
  "create_presentation parse disk template_name =
     (case template_name of
        None \<Rightarrow> Presentation parse disk None
      | Some n \<Rightarrow>
          if n \<noteq> [] then
            (let template_path = path_join TEMPLATES_PATH n
             in case exists_path disk template_path of
                  Inl e \<Rightarrow> Inl e
                | Inr found \<Rightarrow>
                    if found
                    then Presentation parse disk (Some template_path)
                    else Inl (FileNotFoundError n))
          else Presentation parse disk None)"

text \<open>
  The specification's \<open>create\<close>, in its own words, for comparison. The template catalog
  is the content of the templates directory: its entries are named by plain file names (a
  non-empty name of at most 255 bytes, without a slash or a NUL character, that is neither
  \<^verbatim>\<open>.\<close> nor \<^verbatim>\<open>..\<close>), and no other name has an entry. With a template reference the named entry is loaded, and the call
  fails with \<open>TemplateNotFound\<close> (the module's \<^verbatim>\<open>FileNotFoundError\<close>) when the catalog
  has no entry of that name; without one the result is a blank deck with zero slides.
\<close>

definition plain_name :: "string \<Rightarrow> bool" where
  "plain_name n =
     (n \<noteq> [] \<and> utf8_len n \<le> 255 \<and> CHR ''/'' \<notin> set n \<and> CHR 0x00 \<notin> set n
      \<and> n \<noteq> ''.'' \<and> n \<noteq> ''..'')"

definition catalog :: "fs \<Rightarrow> string \<rightharpoonup> node" where
  "catalog disk n = (if plain_name n then disk (''templates/'' @ n) else None)"

definition load :: "parser \<Rightarrow> node \<Rightarrow> error + presentation" where
  "load parse entry =
     (case entry of
        Dir \<Rightarrow> Inl IsADirectoryError
      | File bs \<Rightarrow> (case parse bs of None \<Rightarrow> Inl BadZipFile | Some prs \<Rightarrow> Inr prs))"

definition create_spec :: "parser \<Rightarrow> fs \<Rightarrow> string option \<Rightarrow> error + presentation" where
  "create_spec parse disk template_ref =
     (case template_ref of
        None \<Rightarrow> Inr \<lparr>slides = []\<rparr>
      | Some n \<Rightarrow>
          (case catalog disk n of
             None \<Rightarrow> Inl (FileNotFoundError n)
           | Some entry \<Rightarrow> load parse entry))"

section \<open>PresentationBot: an uploaded document\<close>

text \<open>
  What \<^verbatim>\<open>handle_document\<close> reads of the incoming message: the sender's id and the
  attached document, if any, with its Telegram file id, its name and its declared size.
\<close>

record tg_document =
  file_id :: string
  file_name :: string
  file_size :: int

record tg_message =
  from_user_id :: int
  document :: "tg_document option"

text \<open>
  The three answers of the handler: the file is too large (with the limit in megabytes the
  text shows), the presentation was loaded (with the slide count the text shows), and the
  generic error.
\<close>

datatype reply = TooLargeReply int | LoadedReply nat | ErrorReply

text \<open>
  The handler acts on the download directory and on the Telegram connection. The state is
  the file system together with the sequence of actions performed so far, in order: an
  answer sent, a file requested, a path opened for writing, a chunk of bytes received.
\<close>

datatype event =
    Answer reply
  | GetFile string
  | OpenWB path
  | Received "byte list"

record world =
  files :: fs
  events :: "event list"

text \<open>
  What the Telegram servers do during the call is a parameter: \<^verbatim>\<open>get_file\<close> fails, or
  it returns the remote path of the file and the download then delivers chunks of bytes
  and either completes or breaks off with an exception after the chunks listed.
\<close>

datatype stream = Completed "byte list list" | Interrupted "byte list list"

datatype remote = GetFileFails | FileAt string stream

definition chunks :: "stream \<Rightarrow> byte list list" where
  "chunks s = (case s of Completed cs \<Rightarrow> cs | Interrupted cs \<Rightarrow> cs)"

text \<open>The decimal text of an integer, as an f-string prints it.\<close>

fun str_nat :: "nat \<Rightarrow> string" where
  "str_nat n =
     (if n < 10 then [''0123456789'' ! n]
      else str_nat (n div 10) @ [''0123456789'' ! (n mod 10)])"

declare str_nat.simps [simp del]

definition str_int :: "int \<Rightarrow> string" where
  "str_int i = (if i < 0 then ''-'' @ str_nat (nat (- i)) else str_nat (nat i))"

definition answer :: "reply \<Rightarrow> world \<Rightarrow> world" where
  "answer r w = w\<lparr>events := events w @ [Answer r]\<rparr>"

definition get_file :: "remote \<Rightarrow> string \<Rightarrow> world \<Rightarrow> (error + string) \<times> world" where
  "get_file net fid w =
     (let w1 = w\<lparr>events := events w @ [GetFile fid]\<rparr>
      in case net of
           GetFileFails \<Rightarrow> (Inl NetworkError, w1)
         | FileAt remote_path s \<Rightarrow> (Inr remote_path, w1))"

text \<open>
  \<^verbatim>\<open>aiofiles.open(file_path, 'wb')\<close> creates the file, or truncates the one there. It
  raises, and creates nothing, when the operating system refuses the path, when the
  directory of the path is missing or is a file, and when the path is a directory.
\<close>

definition open_error :: "fs \<Rightarrow> path \<Rightarrow> error option" where
  "open_error disk p =
     (case os_error p of
        Some e \<Rightarrow> Some e
      | None \<Rightarrow>
          (case disk (parent_path p) of
             None \<Rightarrow> Some (FileNotFoundError p)
           | Some (File bs) \<Rightarrow> Some NotADirectoryError
           | Some Dir \<Rightarrow> (if disk p = Some Dir then Some IsADirectoryError else None)))"

definition open_wb :: "path \<Rightarrow> world \<Rightarrow> outcome \<times> world" where
  "open_wb p w =
     (let w1 = w\<lparr>events := events w @ [OpenWB p]\<rparr>
      in case open_error (files w) p of
           Some e \<Rightarrow> (Raised e, w1)
         | None \<Rightarrow> (Returned, w1\<lparr>files := (files w)(p \<mapsto> File [])\<rparr>))"

text \<open>
  \<^verbatim>\<open>bot.download_file(file.file_path, f)\<close> reads the stream chunk by chunk and calls
  \<^verbatim>\<open>destination.write(chunk)\<close> for each without awaiting the result. On the
  \<^verbatim>\<open>aiofiles\<close> handle the module passes, \<^verbatim>\<open>write\<close> only builds a coroutine, which never
  runs: the chunks are received and no byte reaches the file. The call raises when the
  transfer breaks off.
\<close>

fun receive_chunks :: "byte list list \<Rightarrow> world \<Rightarrow> world" where
  "receive_chunks [] w = w"
| "receive_chunks (c # cs) w = receive_chunks cs (w\<lparr>events := events w @ [Received c]\<rparr>)"

definition download_file :: "remote \<Rightarrow> path \<Rightarrow> world \<Rightarrow> outcome \<times> world" where
  "download_file net dest w =
     (case net of
        GetFileFails \<Rightarrow> (Raised NetworkError, w)
      | FileAt remote_path s \<Rightarrow>
          (case s of
             Completed cs \<Rightarrow> (Returned, receive_chunks cs w)
           | Interrupted cs \<Rightarrow> (Raised NetworkError, receive_chunks cs w)))"

text \<open>
  The destination of an upload:
  \<^verbatim>\<open>Config.DOWNLOAD_PATH / f"{message.from_user.id}_{document.file_name}"\<close>.
\<close>

definition upload_path :: "tg_message \<Rightarrow> tg_document \<Rightarrow> path" where
  "upload_path message doc =
     path_join DOWNLOAD_PATH (str_int (from_user_id message) @ ''_'' @ file_name doc)"

text \<open>
  The body of the \<^verbatim>\<open>try\<close> block:
  \<^verbatim>\<open>
  file = await self.bot.get_file(file_id)
  file_path = Config.DOWNLOAD_PATH / f"{message.from_user.id}_{document.file_name}"
  async with aiofiles.open(file_path, 'wb') as f:
      await self.bot.download_file(file.file_path, f)
  prs = Presentation(file_path)
  await message.answer(... len(prs.slides) ...)
  \<close>
\<close>

definition handle_document_try ::
  "parser \<Rightarrow> remote \<Rightarrow> tg_message \<Rightarrow> tg_document \<Rightarrow> world \<Rightarrow> outcome \<times> world" where
  "handle_document_try parse net message doc w =
     (case get_file net (file_id doc) w of
        (Inl e, w1) \<Rightarrow> (Raised e, w1)
      | (Inr remote_path, w1) \<Rightarrow>
          (let file_path = upload_path message doc
           in case open_wb file_path w1 of
                (Raised e, w2) \<Rightarrow> (Raised e, w2)
              | (Returned, w2) \<Rightarrow>
                  (case download_file net file_path w2 of
                     (Raised e, w3) \<Rightarrow> (Raised e, w3)
                   | (Returned, w3) \<Rightarrow>
                       (case Presentation parse (files w3) (Some file_path) of
                          Inl e \<Rightarrow> (Raised e, w3)
                        | Inr prs \<Rightarrow>
                            (Returned, answer (LoadedReply (length (slides prs))) w3)))))"

text \<open>
  \<^verbatim>\<open>
  document = message.document
  if not document:
      return
  if document.file_size > Config.MAX_FILE_SIZE:
      await message.answer(... Config.MAX_FILE_SIZE // (1024 * 1024) ...)
      return
  try:
      ...
  except Exception as e:
      await message.answer(...)
  \<close>
\<close>

definition handle_document :: "parser \<Rightarrow> remote \<Rightarrow> tg_message \<Rightarrow> world \<Rightarrow> world" where
  "handle_document parse net message w =
     (case document message of
        None \<Rightarrow> w
      | Some doc \<Rightarrow>
          if file_size doc > MAX_FILE_SIZE
          then answer (TooLargeReply (MAX_FILE_SIZE div (1024 * 1024))) w
          else (case handle_document_try parse net message doc w of
                  (Raised e, w1) \<Rightarrow> answer ErrorReply w1
                | (Returned, w1) \<Rightarrow> w1))"

section \<open>Properties of the text and path functions\<close>



lemma shape_text_empty: "shape_text [] = []"
  by (simp add: shape_text_def)

lemma split_from_no_sep: "CHR ''/'' \<notin> set s \<Longrightarrow> split_from cur s = [cur @ s]"
  by (induction s arbitrary: cur) auto

lemma split_from_sep:
  "CHR ''/'' \<notin> set a \<Longrightarrow> split_from cur (a @ CHR ''/'' # b) = (cur @ a) # split_from [] b"
  by (induction a arbitrary: cur) auto

lemma templates_path_value: "TEMPLATES_PATH = ''templates''"
  by (simp add: TEMPLATES_PATH_def Path_def path_root_def path_parts_def split_sep_def
        format_path_def)

lemma downloads_path_value: "DOWNLOAD_PATH = ''downloads''"
  by (simp add: DOWNLOAD_PATH_def Path_def path_root_def path_parts_def split_sep_def
        format_path_def)

lemma split_sep_templates:
  assumes "CHR ''/'' \<notin> set n"
  shows "split_sep (''templates/'' @ n) = [''templates'', n]"
proof -
  have "split_from [] (''templates'' @ CHR ''/'' # n) = ''templates'' # split_from [] n"
    by (rule split_from_sep [where cur = "[]", simplified]) simp
  also have "split_from [] n = [n]"
    using split_from_no_sep [OF assms, of "[]"] by simp
  finally show ?thesis
    by (simp add: split_sep_def)
qed

lemma path_join_plain:
  assumes "plain_name n"
  shows "path_join TEMPLATES_PATH n = ''templates/'' @ n"
proof -
  from assms have ne: "n \<noteq> []" and nosep: "CHR ''/'' \<notin> set n" and nodot: "n \<noteq> ''.''"
    by (simp_all add: plain_name_def)
  from ne nosep have rel: "take 1 n \<noteq> ''/''"
    by (cases n) auto
  have parts: "path_parts (''templates/'' @ n) = [''templates'', n]"
    unfolding path_parts_def split_sep_templates [OF nosep] using ne nodot by simp
  have root: "path_root (''templates/'' @ n) = []"
    by (simp add: path_root_def)
  show ?thesis
    using rel parts root
    by (simp add: path_join_def templates_path_value Path_def format_path_def)
qed

lemma utf8_len_append: "utf8_len (a @ b) = utf8_len a + utf8_len b"
  by (simp add: utf8_len_def)

lemma utf8_len_templates: "utf8_len ''templates'' = 9"
  by (simp add: utf8_len_def)

text \<open>The operating system accepts the path of a plain name in the templates directory.\<close>

lemma os_error_plain:
  assumes "plain_name n"
  shows "os_error (''templates/'' @ n) = None"
proof -
  from assms have nosep: "CHR ''/'' \<notin> set n" and nonul: "CHR 0x00 \<notin> set n"
    and short: "utf8_len n \<le> 255"
    by (simp_all add: plain_name_def)
  have "utf8_len (''templates/'' @ n) = 10 + utf8_len n"
    by (simp add: utf8_len_def)
  with short have total: "\<not> 4096 \<le> utf8_len (''templates/'' @ n)"
    by simp
  have "\<not> list_ex (\<lambda>x. 255 < utf8_len x) (split_sep (''templates/'' @ n))"
    unfolding split_sep_templates [OF nosep] using short by (simp add: utf8_len_templates)
  with total have "\<not> too_long (''templates/'' @ n)"
    by (simp add: too_long_def)
  with nonul show ?thesis
    by (simp add: os_error_def)
qed

lemma exists_path_accepted:
  "os_error p = None \<Longrightarrow> exists_path disk p = Inr (disk p \<noteq> None)"
  by (simp add: exists_path_def)

lemma exists_path_nowhere: "exists_path Map.empty p \<noteq> Inr True"
  by (simp add: exists_path_def split: option.splits)

lemma open_error_accepted: "open_error disk p = None \<Longrightarrow> os_error p = None"
  by (simp add: open_error_def split: option.splits)

lemma example_missing_png:
  "Path ''missing.png'' = ''missing.png''" "os_error ''missing.png'' = None"
  by (simp_all add: Path_def path_root_def path_parts_def split_sep_def format_path_def
        os_error_def too_long_def utf8_len_def)

section \<open>Properties of the slide operations\<close>

lemma modify_appended:
  "modify_slide (length xs) f (prs\<lparr>slides := xs @ [s]\<rparr>) = prs\<lparr>slides := xs @ [f s]\<rparr>"
  by (simp add: modify_slide_def)

lemma add_title_slide_eq:
  "add_title_slide prs ttl subtitle =
     (Returned,
      prs\<lparr>slides := slides prs @
        [\<lparr>layout = 0, title = shape_text ttl,
          placeholder_1 = (if subtitle = [] then None else Some (shape_text subtitle)),
          paragraphs = [], pictures = []\<rparr>]\<rparr>)"
  by (simp add: add_title_slide_def add_slide_def new_slide_def modify_appended)




text \<open>
  C9. For every deck and every non-empty title, \<open>add_title_slide\<close> with an empty
  subtitle sets only the title of the new slide: the slide is the fresh layout-0 slide with
  its title assigned, and placeholder 1 is untouched. In general placeholder 1 of the new
  slide is written exactly when the subtitle is non-empty, and then holds the text the
  assignment of the subtitle stores. The slides already in the deck are unchanged.
\<close>

theorem add_title_slide_subtitle:
  assumes "ttl \<noteq> []"
  shows "last (slides (snd (add_title_slide prs ttl []))) = (new_slide 0)\<lparr>title := shape_text ttl\<rparr>
       \<and> placeholder_1 (last (slides (snd (add_title_slide prs ttl [])))) = None
       \<and> placeholder_1 (last (slides (snd (add_title_slide prs ttl subtitle)))) =
           (if subtitle = [] then None else Some (shape_text subtitle))
       \<and> butlast (slides (snd (add_title_slide prs ttl subtitle))) = slides prs"
  by (simp add: add_title_slide_eq new_slide_def)

theorem add_title_slide_subtitle_witness:
  "''Plan'' \<noteq> []
   \<and> last (slides (snd (add_title_slide \<lparr>slides = []\<rparr> ''Plan'' []))) =
       \<lparr>layout = 0, title = ''Plan'', placeholder_1 = None, paragraphs = [], pictures = []\<rparr>
   \<and> placeholder_1 (last (slides (snd (add_title_slide \<lparr>slides = []\<rparr> ''Plan'' ''2024'')))) = Some ''2024''"
  using add_title_slide_subtitle [of "''Plan''" "\<lparr>slides = []\<rparr>" "''2024''"]
  by (simp add: new_slide_def shape_text_def escape_char_def is_control_def)

text \<open>
  C2, as the module has it. \<open>add_title_slide\<close> does not validate the title: with an
  empty title it returns normally and appends one slide whose title is empty, so the slide
  count grows by one; the slides already in the deck are unchanged.
\<close>

theorem add_title_slide_empty_title:
  "fst (add_title_slide prs [] subtitle) = Returned
   \<and> length (slides (snd (add_title_slide prs [] subtitle))) = length (slides prs) + 1
   \<and> butlast (slides (snd (add_title_slide prs [] subtitle))) = slides prs
   \<and> title (last (slides (snd (add_title_slide prs [] subtitle)))) = []"
  by (simp add: add_title_slide_eq shape_text_empty)

text \<open>
  The specification's wording (failure, slide count unchanged) does not hold for the empty
  deck and an empty title: the call returns and the deck has a slide.
\<close>

theorem add_title_slide_empty_title_counterexample:
  "fst (add_title_slide \<lparr>slides = []\<rparr> [] []) = Returned
   \<and> length (slides (snd (add_title_slide \<lparr>slides = []\<rparr> [] []))) \<noteq> length (slides \<lparr>slides = []\<rparr>)"
  by (simp add: add_title_slide_eq)

text \<open>
  \<open>add_title_slide\<close> and \<open>add_content_slide\<close> have no failing branch.
\<close>

lemma add_title_slide_returns: "fst (add_title_slide prs ttl subtitle) = Returned"
  by (simp add: add_title_slide_eq)

lemma add_content_slide_returns: "fst (add_content_slide prs ttl content) = Returned"
  by (simp add: add_content_slide_def add_slide_def)

text \<open>
  \<open>add_image_slide\<close> raises in three ways, each time after the slide has been appended
  and its title set: nothing exists at the image path, the path is a directory, or the
  file there is not an image.
\<close>

lemma add_image_slide_raises_after_append:
  "fst (add_image_slide decode disk prs ttl image_path) = Raised e \<Longrightarrow>
   snd (add_image_slide decode disk prs ttl image_path) =
     prs\<lparr>slides := slides prs @ [(new_slide 5)\<lparr>title := shape_text ttl\<rparr>]\<rparr>"
  by (simp add: add_image_slide_def add_slide_def modify_appended Let_def
        split: if_splits sum.splits)

text \<open>
  C1. \<open>add_image_slide\<close> tests the image path after it has appended the slide and set
  its title. On the empty deck, with the title \<open>Photo\<close> and the path
  \<open>missing.png\<close> on a file system that has no such file, the call raises
  \<^verbatim>\<open>FileNotFoundError\<close> and leaves a deck of one layout-5 slide titled \<open>Photo\<close>,
  without a picture.
\<close>

theorem add_image_slide_missing_file_appends:
  "add_image_slide decode Map.empty \<lparr>slides = []\<rparr> ''Photo'' ''missing.png'' =
     (Raised (FileNotFoundError ''missing.png''),
      \<lparr>slides = [\<lparr>layout = 5, title = ''Photo'', placeholder_1 = None,
                  paragraphs = [], pictures = []\<rparr>]\<rparr>)"
  by (simp add: add_image_slide_def add_slide_def new_slide_def modify_slide_def
        example_missing_png exists_path_accepted
        shape_text_def escape_char_def is_control_def Let_def)

section \<open>Properties of the configuration\<close>

text \<open>
  C4. With no \<open>API_TOKEN\<close> variable in the environment (here the empty environment),
  the token of the configuration is the literal written in the source.
\<close>

theorem api_token_without_environment:
  "API_TOKEN Map.empty = ''7567293644:AAHVSPgyYAPt_NaUahhdID2njMK-FrtxaRg''"
  by (simp add: API_TOKEN_def getenv_def)

section \<open>Properties of \<open>create_presentation\<close>\<close>

lemma create_presentation_named:
  assumes "n \<noteq> []" and "os_error (path_join TEMPLATES_PATH n) = None"
  shows "create_presentation parse disk (Some n) =
     (case disk (path_join TEMPLATES_PATH n) of
        None \<Rightarrow> Inl (FileNotFoundError n)
      | Some entry \<Rightarrow> load parse entry)"
  using assms
  by (simp add: create_presentation_def Presentation_def load_def exists_path_accepted Let_def
        split: option.splits node.splits)

lemma load_not_missing: "load parse entry \<noteq> Inl (FileNotFoundError n)"
  by (simp add: load_def split: node.splits option.splits)

text \<open>
  For every non-empty name the module looks at the path the name joins to, which lies
  outside the templates directory for an absolute name, and, where the operating system
  accepts that path, reports a missing template exactly when nothing exists there.
\<close>

lemma create_presentation_not_found:
  assumes "n \<noteq> []" and "os_error (path_join TEMPLATES_PATH n) = None"
  shows "(create_presentation parse disk (Some n) = Inl (FileNotFoundError n))
     = (disk (path_join TEMPLATES_PATH n) = None)"
  by (simp add: create_presentation_named [OF assms] load_not_missing split: option.splits)

lemma create_presentation_plain:
  assumes "plain_name n"
  shows "create_presentation parse disk (Some n) = create_spec parse disk (Some n)"
proof -
  from assms have ne: "n \<noteq> []" by (simp add: plain_name_def)
  have accepted: "os_error (path_join TEMPLATES_PATH n) = None"
    unfolding path_join_plain [OF assms] by (rule os_error_plain [OF assms])
  show ?thesis
    using assms
    by (simp add: create_presentation_named [OF ne accepted] create_spec_def catalog_def
          path_join_plain)
qed

lemma create_spec_not_found:
  "(create_spec parse disk (Some n) = Inl (FileNotFoundError n)) = (catalog disk n = None)"
  by (simp add: create_spec_def load_not_missing split: option.splits)

lemma create_presentation_blank:
  "create_presentation parse disk None = Inr \<lparr>slides = []\<rparr>"
  "create_presentation parse disk (Some []) = Inr \<lparr>slides = []\<rparr>"
  by (simp_all add: create_presentation_def Presentation_def)

text \<open>
  C8, as the module has it. For a template reference that is a plain file name,
  \<open>create_presentation\<close> is the specification's \<open>create\<close>: the entry of that name is
  loaded from the template catalog, and the call fails with \<^verbatim>\<open>FileNotFoundError\<close>
  exactly when the catalog has no entry of that name. Without a reference the result is a
  blank deck with zero slides, and an empty name counts as no reference.
\<close>

theorem create_presentation_spec:
  "(plain_name n \<longrightarrow>
      create_presentation parse disk (Some n) = create_spec parse disk (Some n)
      \<and> (create_presentation parse disk (Some n) = Inl (FileNotFoundError n))
          = (catalog disk n = None))
   \<and> create_presentation parse disk None = create_spec parse disk None
   \<and> create_presentation parse disk None = Inr \<lparr>slides = []\<rparr>
   \<and> create_presentation parse disk (Some []) = Inr \<lparr>slides = []\<rparr>"
proof -
  have none: "create_spec parse disk None = Inr \<lparr>slides = []\<rparr>"
    by (simp add: create_spec_def)
  show ?thesis
    by (simp add: create_presentation_plain create_spec_not_found create_presentation_blank none)
qed

theorem create_presentation_spec_witness:
  "plain_name ''business.pptx''
   \<and> create_presentation (\<lambda>bs. if bs = [] then None else Some \<lparr>slides = [new_slide 0]\<rparr>)
        [''templates/business.pptx'' \<mapsto> File [80, 75]] (Some ''business.pptx'')
      = Inr \<lparr>slides = [new_slide 0]\<rparr>
   \<and> catalog [''templates/business.pptx'' \<mapsto> File [80, 75]] ''business.pptx''
      = Some (File [80, 75])"
proof -
  have plain: "plain_name ''business.pptx''"
    by (simp add: plain_name_def utf8_len_def)
  with create_presentation_spec
    [of "''business.pptx''" "\<lambda>bs. if bs = [] then None else Some \<lparr>slides = [new_slide 0]\<rparr>"
        "[''templates/business.pptx'' \<mapsto> File [80, 75]]"]
  show ?thesis
    by (simp add: create_spec_def catalog_def load_def)
qed

text \<open>
  The specification's wording fails for the empty name and for an absolute name. The
  catalog has no entry for the empty name and the specification's \<open>create\<close> fails, but
  the module returns the blank deck. The catalog has no entry named \<^verbatim>\<open>/tmp/x.pptx\<close>
  either, but the module loads the file at that path, outside the templates directory.
\<close>

theorem create_empty_name_counterexample:
  "create_presentation (\<lambda>bs. None) Map.empty (Some []) = Inr \<lparr>slides = []\<rparr>
   \<and> catalog Map.empty [] = None
   \<and> create_spec (\<lambda>bs. None) Map.empty (Some []) = Inl (FileNotFoundError [])
   \<and> create_presentation (\<lambda>bs. Some \<lparr>slides = []\<rparr>) [''/tmp/x.pptx'' \<mapsto> File [80, 75]]
        (Some ''/tmp/x.pptx'') = Inr \<lparr>slides = []\<rparr>
   \<and> catalog [''/tmp/x.pptx'' \<mapsto> File [80, 75]] ''/tmp/x.pptx'' = None
   \<and> create_spec (\<lambda>bs. Some \<lparr>slides = []\<rparr>) [''/tmp/x.pptx'' \<mapsto> File [80, 75]]
        (Some ''/tmp/x.pptx'') = Inl (FileNotFoundError ''/tmp/x.pptx'')"
proof -
  have joined: "path_join TEMPLATES_PATH ''/tmp/x.pptx'' = ''/tmp/x.pptx''"
    by (simp add: path_join_def Path_def path_root_def path_parts_def split_sep_def
          format_path_def)
  have accepted: "os_error ''/tmp/x.pptx'' = None"
    by (simp add: os_error_def too_long_def utf8_len_def split_sep_def)
  have "create_presentation (\<lambda>bs. Some \<lparr>slides = []\<rparr>) [''/tmp/x.pptx'' \<mapsto> File [80, 75]]
          (Some ''/tmp/x.pptx'') = Inr \<lparr>slides = []\<rparr>"
    by (simp add: create_presentation_def joined exists_path_accepted accepted Presentation_def)
  then show ?thesis
    by (simp add: create_presentation_blank create_spec_def catalog_def plain_name_def)
qed

section \<open>Properties of \<open>handle_document\<close>\<close>

lemma max_file_size_value: "MAX_FILE_SIZE = 524288000"
  by (simp add: MAX_FILE_SIZE_def)

lemma receive_chunks_eq: "receive_chunks cs w = w\<lparr>events := events w @ map Received cs\<rparr>"
  by (induction cs arbitrary: w) simp_all

lemma try_get_file_fails:
  "handle_document_try parse GetFileFails message doc w =
     (Raised NetworkError, w\<lparr>events := events w @ [GetFile (file_id doc)]\<rparr>)"
  by (simp add: handle_document_try_def get_file_def)

lemma try_open_fails:
  assumes "open_error (files w) (upload_path message doc) = Some e"
  shows "handle_document_try parse (FileAt rp s) message doc w =
     (Raised e,
      w\<lparr>events := events w @ [GetFile (file_id doc), OpenWB (upload_path message doc)]\<rparr>)"
  using assms by (simp add: handle_document_try_def get_file_def open_wb_def Let_def)

text \<open>
  The state in which the download leaves the world once the destination has been opened:
  an empty file at the destination, and the chunks received after the opening.
\<close>

lemma try_opened:
  assumes "open_error (files w) (upload_path message doc) = None"
  shows "handle_document_try parse (FileAt rp s) message doc w =
     (case s of
        Interrupted cs \<Rightarrow>
          (Raised NetworkError,
           w\<lparr>files := (files w)(upload_path message doc \<mapsto> File []),
             events := events w @ GetFile (file_id doc) # OpenWB (upload_path message doc)
                        # map Received cs\<rparr>)
      | Completed cs \<Rightarrow>
          (case parse [] of
             None \<Rightarrow>
               (Raised BadZipFile,
                w\<lparr>files := (files w)(upload_path message doc \<mapsto> File []),
                  events := events w @ GetFile (file_id doc) # OpenWB (upload_path message doc)
                             # map Received cs\<rparr>)
           | Some prs \<Rightarrow>
               (Returned,
                w\<lparr>files := (files w)(upload_path message doc \<mapsto> File []),
                  events := events w @ GetFile (file_id doc) # OpenWB (upload_path message doc)
                             # map Received cs @ [Answer (LoadedReply (length (slides prs)))]\<rparr>)))"
  using assms open_error_accepted [OF assms]
  by (cases s)
     (simp_all add: handle_document_try_def get_file_def open_wb_def download_file_def
        receive_chunks_eq Presentation_def answer_def Let_def split: option.splits)

lemma handle_get_file_fails:
  assumes "document message = Some doc" and "file_size doc \<le> MAX_FILE_SIZE"
  shows "handle_document parse GetFileFails message w =
         w\<lparr>events := events w @ [GetFile (file_id doc), Answer ErrorReply]\<rparr>"
  using assms by (simp add: handle_document_def try_get_file_fails answer_def)

text \<open>
  When the destination cannot be opened nothing is created: the file system is unchanged
  and the user gets the generic error answer.
\<close>

lemma handle_open_fails:
  assumes "document message = Some doc" and "file_size doc \<le> MAX_FILE_SIZE"
    and "open_error (files w) (upload_path message doc) = Some e"
  shows "handle_document parse (FileAt rp s) message w =
         w\<lparr>events := events w @
              [GetFile (file_id doc), OpenWB (upload_path message doc), Answer ErrorReply]\<rparr>"
  using assms by (simp add: handle_document_def try_open_fails answer_def)

lemma handle_opened_files:
  assumes "document message = Some doc" and "file_size doc \<le> MAX_FILE_SIZE"
    and "open_error (files w) (upload_path message doc) = None"
  shows "files (handle_document parse (FileAt rp s) message w) =
         (files w)(upload_path message doc \<mapsto> File [])"
  using assms
  by (cases s)
     (simp_all add: handle_document_def try_opened answer_def split: option.splits)

lemma handle_opened_events:
  assumes "document message = Some doc" and "file_size doc \<le> MAX_FILE_SIZE"
    and "open_error (files w) (upload_path message doc) = None"
  shows "\<exists>r. events (handle_document parse (FileAt rp s) message w) =
           events w @ GetFile (file_id doc) # OpenWB (upload_path message doc)
             # map Received (chunks s) @ [Answer r]"
  using assms
  by (cases s)
     (simp_all add: handle_document_def try_opened answer_def chunks_def split: option.splits)

lemma handle_interrupted_events:
  assumes "document message = Some doc" and "file_size doc \<le> MAX_FILE_SIZE"
    and "open_error (files w) (upload_path message doc) = None"
  shows "events (handle_document parse (FileAt rp (Interrupted cs)) message w) =
           events w @ GetFile (file_id doc) # OpenWB (upload_path message doc)
             # map Received cs @ [Answer ErrorReply]"
  using assms by (simp add: handle_document_def try_opened answer_def)

lemma ingestion_starts_with_get_file:
  assumes "document message = Some doc" and "file_size doc \<le> MAX_FILE_SIZE"
  shows "\<exists>rest. events (handle_document parse net message w) =
                  events w @ GetFile (file_id doc) # rest"
proof (cases net)
  case GetFileFails
  then show ?thesis by (simp add: handle_get_file_fails [OF assms])
next
  case (FileAt rp s)
  show ?thesis
  proof (cases "open_error (files w) (upload_path message doc)")
    case None
    from handle_opened_events [OF assms None, of parse rp s] FileAt show ?thesis
      by auto
  next
    case (Some e)
    with FileAt show ?thesis by (simp add: handle_open_fails [OF assms Some])
  qed
qed

lemma rejected_iff_oversize:
  assumes "document message = Some doc"
  shows "(handle_document parse net message w = answer (TooLargeReply 500) w)
           = (file_size doc > MAX_FILE_SIZE)"
proof (cases "file_size doc > MAX_FILE_SIZE")
  case True
  with assms show ?thesis
    by (simp add: handle_document_def MAX_FILE_SIZE_def)
next
  case False
  then have le: "file_size doc \<le> MAX_FILE_SIZE" by simp
  obtain rest where "events (handle_document parse net message w) =
      events w @ GetFile (file_id doc) # rest"
    using ingestion_starts_with_get_file [OF assms le] by blast
  then have "events (handle_document parse net message w) \<noteq> events (answer (TooLargeReply 500) w)"
    by (simp add: answer_def)
  then have "handle_document parse net message w \<noteq> answer (TooLargeReply 500) w"
    by auto
  with False show ?thesis by blast
qed

lemma example_upload_path:
  "upload_path
     \<lparr>from_user_id = 7,
      document = Some \<lparr>file_id = ''f1'', file_name = ''deck.pptx'', file_size = 4\<rparr>\<rparr>
     \<lparr>file_id = ''f1'', file_name = ''deck.pptx'', file_size = 4\<rparr> = ''downloads/7_deck.pptx''"
  by (simp add: upload_path_def path_join_def downloads_path_value str_int_def str_nat.simps
        Path_def path_root_def path_parts_def split_sep_def format_path_def)

lemma example_open_error:
  "open_error [''downloads'' \<mapsto> Dir] ''downloads/7_deck.pptx'' = None"
  by (simp add: open_error_def os_error_def too_long_def utf8_len_def parent_path_def
        path_root_def path_parts_def split_sep_def format_path_def)

text \<open>
  C5. For every upload whose declared size exceeds 500 * 1024 * 1024 bytes, the handler
  answers that the file is too large (limit shown: 500) and does nothing else, whatever the
  Telegram servers would have delivered: no request for the file, no file opened, no byte
  received. The file system is unchanged. The handler keeps no session state of its own;
  the file system and the actions performed are all the state it has.
\<close>

theorem oversize_upload_rejected:
  assumes "document message = Some doc" and "file_size doc > 500 * 1024 * 1024"
  shows "handle_document parse net message w = w\<lparr>events := events w @ [Answer (TooLargeReply 500)]\<rparr>
       \<and> files (handle_document parse net message w) = files w"
  using assms by (simp add: handle_document_def MAX_FILE_SIZE_def answer_def)

theorem oversize_upload_rejected_witness:
  "document \<lparr>from_user_id = 7,
      document = Some \<lparr>file_id = ''f1'', file_name = ''deck.pptx'', file_size = 629145600\<rparr>\<rparr>
     = Some \<lparr>file_id = ''f1'', file_name = ''deck.pptx'', file_size = 629145600\<rparr>
   \<and> (629145600 :: int) > 500 * 1024 * 1024
   \<and> handle_document (\<lambda>bs. None) (FileAt ''documents/f1'' (Completed [[80, 75]]))
        \<lparr>from_user_id = 7,
          document = Some \<lparr>file_id = ''f1'', file_name = ''deck.pptx'', file_size = 629145600\<rparr>\<rparr>
        \<lparr>files = Map.empty, events = []\<rparr>
      = \<lparr>files = Map.empty, events = [Answer (TooLargeReply 500)]\<rparr>"
  using oversize_upload_rejected
    [of "\<lparr>from_user_id = 7,
          document = Some \<lparr>file_id = ''f1'', file_name = ''deck.pptx'', file_size = 629145600\<rparr>\<rparr>"
        "\<lparr>file_id = ''f1'', file_name = ''deck.pptx'', file_size = 629145600\<rparr>"
        "\<lambda>bs. None" "FileAt ''documents/f1'' (Completed [[80, 75]])"
        "\<lparr>files = Map.empty, events = []\<rparr>"]
  by simp

text \<open>
  C10. The size check is strict. An upload whose declared size is exactly
  500 * 1024 * 1024 bytes is not answered with the too-large reply: the handler goes on to
  the ingestion, whose first action is the request for the file. The handler's result is
  the bare too-large reply exactly when the declared size is greater than the ceiling.
\<close>

theorem size_check_is_strict:
  assumes "document message = Some doc"
  shows "(file_size doc = 500 * 1024 * 1024 \<longrightarrow>
            handle_document parse net message w \<noteq> answer (TooLargeReply 500) w
          \<and> (\<exists>rest. events (handle_document parse net message w) =
                       events w @ GetFile (file_id doc) # rest))
       \<and> ((handle_document parse net message w = answer (TooLargeReply 500) w)
            = (file_size doc > 500 * 1024 * 1024))"
proof -
  have iff: "(handle_document parse net message w = answer (TooLargeReply 500) w)
               = (file_size doc > 500 * 1024 * 1024)"
    using rejected_iff_oversize [OF assms, of parse net w] by (simp add: MAX_FILE_SIZE_def)
  have "\<exists>rest. events (handle_document parse net message w) =
                 events w @ GetFile (file_id doc) # rest"
    if "file_size doc = 500 * 1024 * 1024"
  proof -
    from that have "file_size doc \<le> MAX_FILE_SIZE" by (simp add: MAX_FILE_SIZE_def)
    from ingestion_starts_with_get_file [OF assms this] show ?thesis .
  qed
  with iff show ?thesis by simp
qed

theorem size_check_is_strict_witness:
  "document \<lparr>from_user_id = 7,
      document = Some \<lparr>file_id = ''f1'', file_name = ''deck.pptx'', file_size = 524288000\<rparr>\<rparr>
     = Some \<lparr>file_id = ''f1'', file_name = ''deck.pptx'', file_size = 524288000\<rparr>
   \<and> (524288000 :: int) = 500 * 1024 * 1024
   \<and> handle_document (\<lambda>bs. None) GetFileFails
        \<lparr>from_user_id = 7,
          document = Some \<lparr>file_id = ''f1'', file_name = ''deck.pptx'', file_size = 524288000\<rparr>\<rparr>
        \<lparr>files = Map.empty, events = []\<rparr>
      \<noteq> answer (TooLargeReply 500) \<lparr>files = Map.empty, events = []\<rparr>"
  using size_check_is_strict
    [of "\<lparr>from_user_id = 7,
          document = Some \<lparr>file_id = ''f1'', file_name = ''deck.pptx'', file_size = 524288000\<rparr>\<rparr>"
        "\<lparr>file_id = ''f1'', file_name = ''deck.pptx'', file_size = 524288000\<rparr>"
        "\<lambda>bs. None" GetFileFails "\<lparr>files = Map.empty, events = []\<rparr>"]
  by simp

text \<open>
  C3, as the module has it. For every upload that passes the size check, whose file request
  succeeds and whose destination can be opened, the handler opens the final destination
  path itself for writing, before any chunk of the stream is received, and hands the open
  file to the download: the request, the opening of the final path, the chunks received
  and one answer are all it does, so there is no temporary file and no rename. The opening
  creates the file, and the file is still at the final path when the call ends, whether
  the stream completed or was interrupted; after an interruption the answer is the generic
  error.
\<close>

theorem upload_opened_in_place:
  assumes "document message = Some doc" and "file_size doc \<le> 500 * 1024 * 1024"
    and "open_error (files w) (upload_path message doc) = None"
  shows "(\<exists>r. events (handle_document parse (FileAt rp s) message w) =
            events w @ GetFile (file_id doc) # OpenWB (upload_path message doc)
              # map Received (chunks s) @ [Answer r])
       \<and> (\<exists>bs. files (handle_document parse (FileAt rp s) message w) (upload_path message doc) =
            Some (File bs))
       \<and> events (handle_document parse (FileAt rp (Interrupted cs)) message w) =
            events w @ GetFile (file_id doc) # OpenWB (upload_path message doc)
              # map Received cs @ [Answer ErrorReply]
       \<and> (\<exists>bs. files (handle_document parse (FileAt rp (Interrupted cs)) message w)
              (upload_path message doc) = Some (File bs))"
proof -
  from assms(2) have le: "file_size doc \<le> MAX_FILE_SIZE"
    by (simp add: MAX_FILE_SIZE_def)
  note fs_eq = handle_opened_files [OF assms(1) le assms(3)]
  show ?thesis
    using handle_opened_events [OF assms(1) le assms(3), of parse rp s]
      handle_interrupted_events [OF assms(1) le assms(3), of parse rp cs]
    by (simp add: fs_eq)
qed

theorem upload_opened_in_place_witness:
  "document \<lparr>from_user_id = 7,
      document = Some \<lparr>file_id = ''f1'', file_name = ''deck.pptx'', file_size = 4\<rparr>\<rparr>
     = Some \<lparr>file_id = ''f1'', file_name = ''deck.pptx'', file_size = 4\<rparr>
   \<and> (4 :: int) \<le> 500 * 1024 * 1024
   \<and> open_error (files \<lparr>files = [''downloads'' \<mapsto> Dir], events = []\<rparr>)
        (upload_path
           \<lparr>from_user_id = 7,
            document = Some \<lparr>file_id = ''f1'', file_name = ''deck.pptx'', file_size = 4\<rparr>\<rparr>
           \<lparr>file_id = ''f1'', file_name = ''deck.pptx'', file_size = 4\<rparr>) = None
   \<and> events (handle_document (\<lambda>bs. None) (FileAt ''documents/f1'' (Interrupted [[80, 75], [3]]))
        \<lparr>from_user_id = 7,
          document = Some \<lparr>file_id = ''f1'', file_name = ''deck.pptx'', file_size = 4\<rparr>\<rparr>
        \<lparr>files = [''downloads'' \<mapsto> Dir], events = []\<rparr>)
      = [GetFile ''f1'', OpenWB ''downloads/7_deck.pptx'',
         Received [80, 75], Received [3], Answer ErrorReply]"
proof -
  have opened: "open_error (files \<lparr>files = [''downloads'' \<mapsto> Dir], events = []\<rparr>)
        (upload_path
           \<lparr>from_user_id = 7,
            document = Some \<lparr>file_id = ''f1'', file_name = ''deck.pptx'', file_size = 4\<rparr>\<rparr>
           \<lparr>file_id = ''f1'', file_name = ''deck.pptx'', file_size = 4\<rparr>) = None"
    by (simp add: example_upload_path example_open_error)
  have small: "file_size \<lparr>file_id = ''f1'', file_name = ''deck.pptx'', file_size = 4\<rparr>
                 \<le> 500 * 1024 * 1024"
    by simp
  have doc: "document \<lparr>from_user_id = 7,
      document = Some \<lparr>file_id = ''f1'', file_name = ''deck.pptx'', file_size = 4\<rparr>\<rparr>
     = Some \<lparr>file_id = ''f1'', file_name = ''deck.pptx'', file_size = 4\<rparr>"
    by simp
  from upload_opened_in_place [OF doc small opened, of "\<lambda>bs. None" "''documents/f1''"
      "Interrupted [[80, 75], [3]]" "[[80, 75], [3]]"]
  show ?thesis
    using opened by (simp add: example_upload_path)
qed

text \<open>
  The specification's wording fails when the stream breaks off after two bytes of a
  four-byte upload: nothing was at the final path before, and a file is there afterwards.
\<close>

theorem interrupted_upload_counterexample:
  "files \<lparr>files = [''downloads'' \<mapsto> Dir], events = []\<rparr> ''downloads/7_deck.pptx'' = None
   \<and> files (handle_document (\<lambda>bs. None) (FileAt ''documents/f1'' (Interrupted [[80, 75]]))
        \<lparr>from_user_id = 7,
          document = Some \<lparr>file_id = ''f1'', file_name = ''deck.pptx'', file_size = 4\<rparr>\<rparr>
        \<lparr>files = [''downloads'' \<mapsto> Dir], events = []\<rparr>) ''downloads/7_deck.pptx'' \<noteq> None"
proof -
  have le: "file_size \<lparr>file_id = ''f1'', file_name = ''deck.pptx'', file_size = 4\<rparr> \<le> MAX_FILE_SIZE"
    by (simp add: MAX_FILE_SIZE_def)
  have opened: "open_error (files \<lparr>files = [''downloads'' \<mapsto> Dir], events = []\<rparr>)
        (upload_path
           \<lparr>from_user_id = 7,
            document = Some \<lparr>file_id = ''f1'', file_name = ''deck.pptx'', file_size = 4\<rparr>\<rparr>
           \<lparr>file_id = ''f1'', file_name = ''deck.pptx'', file_size = 4\<rparr>) = None"
    by (simp add: example_upload_path example_open_error)
  have doc: "document \<lparr>from_user_id = 7,
      document = Some \<lparr>file_id = ''f1'', file_name = ''deck.pptx'', file_size = 4\<rparr>\<rparr>
     = Some \<lparr>file_id = ''f1'', file_name = ''deck.pptx'', file_size = 4\<rparr>"
    by simp
  show ?thesis
    by (simp add: handle_opened_files [OF doc le opened] example_upload_path)
qed

end
